theory Spec2Isabelle
  imports Complex_Main "HOL-Library.Char_ord" "HOL-Library.List_Lexorder" "HOL-Library.Multiset"
begin

section \<open>Values of the host language\<close>

text \<open>
  The access layer of \<^verbatim>\<open>src/src/utils.ts\<close> is TypeScript. A JavaScript number is
  a binary64 value: NaN, the two infinities, or a finite value. Finite values are embedded
  in the reals (every binary64 value is one); the two zeros are identified, which none of
  the comparisons below distinguishes.
\<close>

datatype jsnum = NaN | PosInf | NegInf | Finite real

text \<open>\<^verbatim>\<open>isNaN(n)\<close> and \<^verbatim>\<open>a < b\<close> on numbers: every comparison with NaN is false.\<close>

fun isNaN :: "jsnum \<Rightarrow> bool" where
  "isNaN NaN = True"
| "isNaN _ = False"

fun js_less :: "jsnum \<Rightarrow> jsnum \<Rightarrow> bool" where
  "js_less NaN _ = False"
| "js_less _ NaN = False"
| "js_less _ NegInf = False"
| "js_less NegInf _ = True"
| "js_less PosInf _ = False"
| "js_less (Finite a) PosInf = True"
| "js_less (Finite a) (Finite b) = (a < b)"

text \<open>
  The values a stored field or an untyped argument can hold: \<^verbatim>\<open>null\<close>, a boolean, a
  number, a string, or a timestamp of the document database (what
  \<^verbatim>\<open>serverTimestamp()\<close> becomes once written). An absent field
  (\<^verbatim>\<open>undefined\<close>) is \<open>None\<close> of an option. Strings are lists of 8-bit code units.
\<close>

datatype jsval = JNull | JBool bool | JNum jsnum | JStr string | JTimestamp nat

text \<open>
  Two conversions of the runtime are not code of this repository and have no short
  definition: the numeric value of a string or an object, and the decimal text of a number
  or an object. They are parameters of the embedding; every theorem below holds for all of
  them.
\<close>

record conversions =
  StringToNumber :: "string \<Rightarrow> jsnum"
  NumberToString :: "real \<Rightarrow> string"
  TimestampToNumber :: "nat \<Rightarrow> jsnum"
  TimestampToString :: "nat \<Rightarrow> string"

text \<open>\<^verbatim>\<open>String(v)\<close>, \<^verbatim>\<open>Number(v)\<close> and \<^verbatim>\<open>Boolean(v)\<close> (the latter is also \<^verbatim>\<open>!!v\<close>).\<close>

fun String_js :: "conversions \<Rightarrow> jsval \<Rightarrow> string" where
  "String_js cv JNull = ''null''"
| "String_js cv (JBool b) = (if b then ''true'' else ''false'')"
| "String_js cv (JNum NaN) = ''NaN''"
| "String_js cv (JNum PosInf) = ''Infinity''"
| "String_js cv (JNum NegInf) = ''-Infinity''"
| "String_js cv (JNum (Finite r)) = NumberToString cv r"
| "String_js cv (JStr s) = s"
| "String_js cv (JTimestamp t) = TimestampToString cv t"

fun Number_js :: "conversions \<Rightarrow> jsval \<Rightarrow> jsnum" where
  "Number_js cv JNull = Finite 0"
| "Number_js cv (JBool b) = (if b then Finite 1 else Finite 0)"
| "Number_js cv (JNum n) = n"
| "Number_js cv (JStr s) = StringToNumber cv s"
| "Number_js cv (JTimestamp t) = TimestampToNumber cv t"

fun Boolean_js :: "jsval \<Rightarrow> bool" where
  "Boolean_js JNull = False"
| "Boolean_js (JBool b) = b"
| "Boolean_js (JNum NaN) = False"
| "Boolean_js (JNum (Finite r)) = (r \<noteq> 0)"
| "Boolean_js (JNum _) = True"
| "Boolean_js (JStr s) = (s \<noteq> [])"
| "Boolean_js (JTimestamp t) = True"

text \<open>\<^verbatim>\<open>x.f ?? d\<close>: the default replaces an absent field and \<^verbatim>\<open>null\<close>, nothing else.\<close>

fun nullish :: "jsval option \<Rightarrow> jsval \<Rightarrow> jsval" where
  "nullish None d = d"
| "nullish (Some JNull) d = d"
| "nullish (Some v) d = v"

text \<open>
  \<^verbatim>\<open>s.trim()\<close> removes white space and line terminators from both ends. Among 8-bit
  code units these are TAB, LF, VT, FF, CR, SP and NBSP.
\<close>

definition is_space :: "char \<Rightarrow> bool" where
  "is_space c = (c \<in> set [CHR 0x09, CHR 0x0A, CHR 0x0B, CHR 0x0C, CHR 0x0D, CHR 0x20, CHR 0xA0])"

definition trim :: "string \<Rightarrow> string" where
  "trim s = rev (dropWhile is_space (rev (dropWhile is_space s)))"

section \<open>Errors\<close>

text \<open>
  Everything the module throws is an \<^verbatim>\<open>Error\<close> object: a message and, on errors of the
  backend, a \<^verbatim>\<open>code\<close> property. The names of the specification's taxonomy stand for the
  objects the source constructs.
\<close>

datatype js_error = Error (message: string) (code: "string option")

definition NotSignedIn :: js_error where
  "NotSignedIn = Error ''Not signed in'' None"

definition DescriptionRequired :: js_error where
  "DescriptionRequired = Error ''Description is required'' None"

definition InvalidCost :: js_error where
  "InvalidCost = Error ''Enter a valid non-negative cost'' None"

definition Unauthorized :: js_error where
  "Unauthorized = Error ''Unauthorized'' None"

definition SignupNotImplemented :: js_error where
  "SignupNotImplemented = Error ''Signup not implemented'' None"

definition is_ValidationError :: "js_error \<Rightarrow> bool" where
  "is_ValidationError e = (e = DescriptionRequired \<or> e = InvalidCost)"

section \<open>Data model\<close>

text \<open>
  Modelled from the spec: the type \<^verbatim>\<open>Expense\<close> of \<^verbatim>\<open>./types\<close>, which is not among the
  sources. The specification gives it as
  \<^verbatim>\<open>{ id: string, description: string, date: string, cost: number, deleted: boolean }\<close>.
  \<open>NewExpense\<close> is \<^verbatim>\<open>Omit<Expense, "id">\<close>.
\<close>

record NewExpense =
  description :: string
  date :: string
  cost :: jsnum
  deleted :: bool

record Expense = NewExpense +
  expense_id :: string

text \<open>
  A stored document maps field names to values. The collection
  \<^verbatim>\<open>users/{uid}/expenses\<close> is a list of documents with their ids.
\<close>

type_synonym document = "string \<rightharpoonup> jsval"
type_synonym collection = "(string \<times> document) list"

text \<open>
  The identity service's \<^verbatim>\<open>User\<close>: its id, and what \<^verbatim>\<open>user.getIdToken(forceRefresh)\<close>
  resolves to or is rejected with. \<^verbatim>\<open>UserCredential\<close> is what account creation
  resolves to.
\<close>

record User =
  uid :: string
  idToken :: "bool \<Rightarrow> js_error + string"

record UserCredential =
  user :: User

record window =
  hostname :: string
  assigned :: "string list"

datatype net_call =
    GetDocs string
  | AddDoc string
  | UpdateDoc string string
  | HttpFetch string

text \<open>
  The state the module reads and changes: the identity service's current user, the
  database, the browsing context (absent outside a browser) with the addresses
  \<^verbatim>\<open>location.assign\<close> was called with, and the network operations issued so far. The
  last three fields are the backend's own: the ids it will assign to new documents and
  its clock.
\<close>

record state =
  currentUser :: "User option"
  db :: "string \<Rightarrow> collection"
  window :: "window option"
  calls :: "net_call list"
  autoIds :: "nat \<Rightarrow> string"
  issued :: nat
  serverTime :: nat

section \<open>The document database\<close>

text \<open>
  The order of the database on values of different types: null, booleans, numbers (NaN
  first), timestamps, strings (by code units).
\<close>

fun num_rank :: "jsnum \<Rightarrow> nat" where
  "num_rank NaN = 0"
| "num_rank NegInf = 1"
| "num_rank (Finite r) = 2"
| "num_rank PosInf = 3"

fun num_le :: "jsnum \<Rightarrow> jsnum \<Rightarrow> bool" where
  "num_le (Finite a) (Finite b) = (a \<le> b)"
| "num_le a b = (num_rank a \<le> num_rank b)"

fun fs_rank :: "jsval \<Rightarrow> nat" where
  "fs_rank JNull = 0"
| "fs_rank (JBool b) = 1"
| "fs_rank (JNum n) = 2"
| "fs_rank (JTimestamp t) = 3"
| "fs_rank (JStr s) = 4"

fun fs_le :: "jsval \<Rightarrow> jsval \<Rightarrow> bool" where
  "fs_le (JBool a) (JBool b) = (a \<le> b)"
| "fs_le (JNum a) (JNum b) = num_le a b"
| "fs_le (JTimestamp a) (JTimestamp b) = (a \<le> b)"
| "fs_le (JStr a) (JStr b) = (a \<le> b)"
| "fs_le a b = (fs_rank a \<le> fs_rank b)"

text \<open>
  The query of \<open>fetchExpenses\<close>:
  \<^verbatim>\<open>where("deleted", "==", false), orderBy("date", "desc")\<close>. The equality is typed (only
  the boolean \<^verbatim>\<open>false\<close> matches), and ordering by a field leaves out the documents that
  do not have it. Documents with equal dates follow in descending order of their ids.
\<close>

definition query_matches :: "document \<Rightarrow> bool" where
  "query_matches d = (d ''deleted'' = Some (JBool False) \<and> d ''date'' \<noteq> None)"

fun date_le :: "jsval option \<Rightarrow> jsval option \<Rightarrow> bool" where
  "date_le (Some a) (Some b) = fs_le a b"
| "date_le None _ = True"
| "date_le (Some a) None = False"

definition comes_first :: "string \<times> document \<Rightarrow> string \<times> document \<Rightarrow> bool" where
  "comes_first a b =
     (if date_le (snd a ''date'') (snd b ''date'')
      then date_le (snd b ''date'') (snd a ''date'') \<and> fst b \<le> fst a
      else True)"

fun insert_desc :: "string \<times> document \<Rightarrow> collection \<Rightarrow> collection" where
  "insert_desc a [] = [a]"
| "insert_desc a (b # bs) = (if comes_first a b then a # b # bs else b # insert_desc a bs)"

fun order_desc :: "collection \<Rightarrow> collection" where
  "order_desc [] = []"
| "order_desc (a # as) = insert_desc a (order_desc as)"

definition run_query :: "collection \<Rightarrow> collection" where
  "run_query c = order_desc (filter (\<lambda>e. query_matches (snd e)) c)"

text \<open>\<open>date_desc a b\<close>: the stored date of \<open>a\<close> is not below that of \<open>b\<close>.\<close>

definition date_desc :: "string \<times> document \<Rightarrow> string \<times> document \<Rightarrow> bool" where
  "date_desc a b = date_le (snd b ''date'') (snd a ''date'')"

text \<open>A document whose stored date is a string or \<^verbatim>\<open>null\<close>.\<close>

definition text_date :: "string \<times> document \<Rightarrow> bool" where
  "text_date e = (case snd e ''date'' of Some (JStr s) \<Rightarrow> True | Some JNull \<Rightarrow> True | _ \<Rightarrow> False)"

definition getDocs :: "string \<Rightarrow> state \<Rightarrow> collection \<times> state" where
  "getDocs u st = (run_query (db st u), st\<lparr>calls := calls st @ [GetDocs u]\<rparr>)"

text \<open>
  \<^verbatim>\<open>addDoc\<close> stores the payload under an id the backend chooses. \<^verbatim>\<open>updateDoc\<close> merges
  the given fields into the document with the given id and leaves its other fields as
  they are; it fails when there is no such document.
\<close>

definition addDoc :: "string \<Rightarrow> document \<Rightarrow> state \<Rightarrow> (js_error + string) \<times> state" where
  "addDoc u payload st =
     (Inr (autoIds st (issued st)),
      st\<lparr>db := (db st)(u := db st u @ [(autoIds st (issued st), payload)]),
         issued := Suc (issued st),
         calls := calls st @ [AddDoc u]\<rparr>)"

definition merge_into :: "string \<Rightarrow> document \<Rightarrow> collection \<Rightarrow> collection" where
  "merge_into k body c = map (\<lambda>e. if fst e = k then (fst e, snd e ++ body) else e) c"

definition NotFound :: js_error where
  "NotFound = Error ''No document to update'' (Some ''not-found'')"

definition updateDoc :: "string \<Rightarrow> string \<Rightarrow> document \<Rightarrow> state \<Rightarrow> (js_error + unit) \<times> state" where
  "updateDoc u k body st =
     (if k \<in> set (map fst (db st u))
      then (Inr (),
            st\<lparr>db := (db st)(u := merge_into k body (db st u)),
               calls := calls st @ [UpdateDoc u k]\<rparr>)
      else (Inl NotFound, st\<lparr>calls := calls st @ [UpdateDoc u k]\<rparr>))"

section \<open>The access layer\<close>

text \<open>
  \<^verbatim>\<open>requireUid\<close>: \<^verbatim>\<open>auth.currentUser?.uid\<close>, and \<^verbatim>\<open>!uid\<close> holds for an absent user and
  for the empty string.
\<close>

definition requireUid :: "state \<Rightarrow> js_error + string" where
  "requireUid st =
     (case currentUser st of
        None \<Rightarrow> Inl NotSignedIn
      | Some usr \<Rightarrow> if uid usr = [] then Inl NotSignedIn else Inr (uid usr))"

text \<open>The callback of \<^verbatim>\<open>snap.docs.map\<close> in \<open>fetchExpenses\<close>.\<close>

definition to_expense :: "conversions \<Rightarrow> string \<times> document \<Rightarrow> Expense" where
  "to_expense cv e =
     \<lparr>description = String_js cv (nullish (snd e ''description'') (JStr [])),
      date = String_js cv (nullish (snd e ''date'') (JStr [])),
      cost = Number_js cv (nullish (snd e ''cost'') (JNum (Finite 0))),
      deleted = Boolean_js (nullish (snd e ''deleted'') (JBool False)),
      expense_id = fst e\<rparr>"

definition fetchExpenses :: "conversions \<Rightarrow> state \<Rightarrow> (js_error + Expense list) \<times> state" where
  "fetchExpenses cv st =
     (case requireUid st of
        Inl err \<Rightarrow> (Inl err, st)
      | Inr u \<Rightarrow>
          (case getDocs u st of
             (snap, st') \<Rightarrow> (Inr (map (to_expense cv) snap), st')))"

text \<open>
  \<open>addExpense\<close>. Its argument has the declared type, so \<^verbatim>\<open>Number(expense.cost)\<close> and
  \<^verbatim>\<open>String(expense.date)\<close> return their arguments, and \<^verbatim>\<open>!expense.description\<close> holds
  for the empty string only.
\<close>

definition add_payload :: "NewExpense \<Rightarrow> state \<Rightarrow> document" where
  "add_payload expense st =
     [''description'' \<mapsto> JStr (trim (description expense)),
      ''date'' \<mapsto> JStr (date expense),
      ''cost'' \<mapsto> JNum (cost expense),
      ''deleted'' \<mapsto> JBool False,
      ''createdAt'' \<mapsto> JTimestamp (serverTime st)]"

definition addExpense :: "NewExpense \<Rightarrow> state \<Rightarrow> (js_error + unit) \<times> state" where
  "addExpense expense st =
     (case requireUid st of
        Inl err \<Rightarrow> (Inl err, st)
      | Inr u \<Rightarrow>
          if description expense = [] then (Inl DescriptionRequired, st)
          else if isNaN (cost expense) \<or> js_less (cost expense) (Finite 0)
          then (Inl InvalidCost, st)
          else (case addDoc u (add_payload expense st) st of
                  (Inl err, st') \<Rightarrow> (Inl err, st')
                | (Inr r, st') \<Rightarrow> (Inr (), st')))"

text \<open>
  \<open>updateExpense\<close>. The partial update (a \<^verbatim>\<open>Partial<Expense>\<close> or a \<^verbatim>\<open>TempEdit\<close>, a
  type of \<^verbatim>\<open>./types\<close>) is read through \<^verbatim>\<open>any\<close>, so its fields are arbitrary values; an absent field and one set to \<^verbatim>\<open>undefined\<close> are both \<open>None\<close>. The
  id is a string or a number and goes through \<^verbatim>\<open>String\<close>.
\<close>

definition update_body :: "conversions \<Rightarrow> document \<Rightarrow> document" where
  "update_body cv nxt =
     (\<lambda>f. if f = ''description'' then nxt ''description''
          else if f = ''date'' then nxt ''date''
          else if f = ''cost'' then map_option (\<lambda>v. JNum (Number_js cv v)) (nxt ''cost'')
          else if f = ''deleted'' then map_option (\<lambda>v. JBool (Boolean_js v)) (nxt ''deleted'')
          else None)"

definition updateExpense ::
  "conversions \<Rightarrow> jsval \<Rightarrow> document \<Rightarrow> state \<Rightarrow> (js_error + unit) \<times> state" where
  "updateExpense cv i nxt st =
     (case requireUid st of
        Inl err \<Rightarrow> (Inl err, st)
      | Inr u \<Rightarrow> updateDoc u (String_js cv i) (update_body cv nxt) st)"

definition deleteExpense :: "conversions \<Rightarrow> jsval \<Rightarrow> state \<Rightarrow> (js_error + unit) \<times> state" where
  "deleteExpense cv i st =
     (case requireUid st of
        Inl err \<Rightarrow> (Inl err, st)
      | Inr u \<Rightarrow> updateDoc u (String_js cv i) [''deleted'' \<mapsto> JBool True] st)"

text \<open>\<open>getIdToken\<close>: nothing when no user is signed in.\<close>

definition getIdToken :: "bool \<Rightarrow> state \<Rightarrow> js_error + string option" where
  "getIdToken forceRefresh st =
     (case currentUser st of
        None \<Rightarrow> Inr None
      | Some usr \<Rightarrow>
          (case idToken usr forceRefresh of
             Inl err \<Rightarrow> Inl err
           | Inr t \<Rightarrow> Inr (Some t)))"

text \<open>
  \<open>authedFetch\<close>. A \<^verbatim>\<open>Headers\<close> object is a map from (lower-cased) header names to
  values; \<^verbatim>\<open>init.headers || {}\<close> is the empty map when the option has none. The
  environment's \<^verbatim>\<open>fetch\<close> is a parameter: it resolves to a response or is rejected.
  \<^verbatim>\<open>window.location.assign\<close> needs a browsing context; without one the reference to
  \<^verbatim>\<open>window\<close> throws.
\<close>

record request_init =
  headers :: "(string \<rightharpoonup> string) option"

record response =
  status :: nat

definition WindowUndefined :: js_error where
  "WindowUndefined = Error ''window is not defined'' None"

definition with_token :: "string option \<Rightarrow> 'a request_init_scheme \<Rightarrow> 'a request_init_scheme" where
  "with_token token init =
     (let hs = (case headers init of None \<Rightarrow> Map.empty | Some h \<Rightarrow> h)
      in init\<lparr>headers :=
           Some (case token of
                   None \<Rightarrow> hs
                 | Some t \<Rightarrow> if t = [] then hs else hs(''authorization'' \<mapsto> ''Bearer '' @ t))\<rparr>)"

definition authedFetch ::
  "(string \<Rightarrow> 'a request_init_scheme \<Rightarrow> js_error + 'b response_scheme) \<Rightarrow>
   string \<Rightarrow> 'a request_init_scheme \<Rightarrow> state \<Rightarrow> (js_error + 'b response_scheme) \<times> state" where
  "authedFetch fetch input init st =
     (case getIdToken False st of
        Inl err \<Rightarrow> (Inl err, st)
      | Inr token \<Rightarrow>
          (case fetch input (with_token token init) of
             Inl err \<Rightarrow> (Inl err, st\<lparr>calls := calls st @ [HttpFetch input]\<rparr>)
           | Inr res \<Rightarrow>
               if status res = 401
               then (case window st of
                       None \<Rightarrow> (Inl WindowUndefined, st\<lparr>calls := calls st @ [HttpFetch input]\<rparr>)
                     | Some w \<Rightarrow>
                         (Inl Unauthorized,
                          st\<lparr>calls := calls st @ [HttpFetch input],
                             window := Some (w\<lparr>assigned := assigned w @ [''/signin'']\<rparr>)\<rparr>))
               else (Inr res, st\<lparr>calls := calls st @ [HttpFetch input]\<rparr>)))"

text \<open>
  \<open>signUp\<close>. The identity service's \<^verbatim>\<open>createUserWithEmailAndPassword\<close> and the
  repository's \<^verbatim>\<open>seedExpensesIfEmpty\<close> (of \<^verbatim>\<open>./dev/seed\<close>, not among the sources) are
  parameters: each is rejected with an error or resolves, and may change the state. The
  \<^verbatim>\<open>catch\<close> clause rethrows what it caught.
\<close>

definition isLocal :: "state \<Rightarrow> bool" where
  "isLocal st = (case window st of None \<Rightarrow> False | Some w \<Rightarrow> hostname w = ''localhost'')"

definition return_user :: "UserCredential option \<Rightarrow> state \<Rightarrow> (js_error + User) \<times> state" where
  "return_user cred st =
     (case cred of
        Some c \<Rightarrow> (Inr (user c), st)
      | None \<Rightarrow> (Inl SignupNotImplemented, st))"

definition signUp ::
  "(string \<Rightarrow> string \<Rightarrow> state \<Rightarrow> (js_error + UserCredential option) \<times> state) \<Rightarrow>
   (string \<Rightarrow> nat \<Rightarrow> state \<Rightarrow> (js_error + unit) \<times> state) \<Rightarrow>
   string \<Rightarrow> string \<Rightarrow> bool \<Rightarrow> state \<Rightarrow> (js_error + User) \<times> state" where
  "signUp createUserWithEmailAndPassword seedExpensesIfEmpty email password seed st =
     (case createUserWithEmailAndPassword email password st of
        (Inl err, st1) \<Rightarrow> (Inl err, st1)
      | (Inr cred, st1) \<Rightarrow>
          (case cred of
             Some c \<Rightarrow>
               if isLocal st1 \<and> seed
               then (case seedExpensesIfEmpty (uid (user c)) 100 st1 of
                       (Inl err, st2) \<Rightarrow> (Inl err, st2)
                     | (Inr r, st2) \<Rightarrow> return_user cred st2)
               else return_user cred st1
           | None \<Rightarrow> return_user cred st1))"

section \<open>Sample data\<close>

text \<open>
  Concrete inputs for the examples below. None of the examples converts a string to a
  number or a number to a string, so the sample conversions are never applied.
\<close>

definition cv0 :: conversions where
  "cv0 = \<lparr>StringToNumber = (\<lambda>s. NaN), NumberToString = (\<lambda>r. []),
          TimestampToNumber = (\<lambda>t. NaN), TimestampToString = (\<lambda>t. [])\<rparr>"

definition alice :: User where
  "alice = \<lparr>uid = ''alice'', idToken = (\<lambda>forceRefresh. Inr ''tok'')\<rparr>"

definition coffee :: document where
  "coffee = [''description'' \<mapsto> JStr ''Coffee'', ''date'' \<mapsto> JStr ''2024-01-01'',
             ''cost'' \<mapsto> JNum (Finite 4.5), ''deleted'' \<mapsto> JBool False]"

definition tea :: document where
  "tea = [''description'' \<mapsto> JStr ''Tea'', ''date'' \<mapsto> JStr ''2024-02-01'',
          ''cost'' \<mapsto> JNum (Finite 3), ''deleted'' \<mapsto> JBool False]"

definition signed_out :: state where
  "signed_out =
     \<lparr>currentUser = None,
      db = (\<lambda>u. if u = ''alice'' then [(''e1'', coffee), (''e2'', tea)] else []),
      window = Some \<lparr>hostname = ''example.org'', assigned = []\<rparr>,
      calls = [], autoIds = (\<lambda>n. replicate (Suc n) CHR ''n''), issued = 0, serverTime = 7\<rparr>"

definition signed_in :: state where
  "signed_in = signed_out\<lparr>currentUser := Some alice\<rparr>"

definition coffee_input :: NewExpense where
  "coffee_input = \<lparr>description = ''Coffee'', date = ''2024-01-01'', cost = Finite 4.5, deleted = False\<rparr>"

definition padded_input :: NewExpense where
  "padded_input = \<lparr>description = '' Coffee  '', date = ''2024-01-01'', cost = Finite 4.5, deleted = True\<rparr>"

definition blank_input :: NewExpense where
  "blank_input = \<lparr>description = ''   '', date = ''2024-01-01'', cost = Finite 4.5, deleted = False\<rparr>"

definition lunch :: document where
  "lunch = [''description'' \<mapsto> JStr ''Lunch'', ''date'' \<mapsto> JStr ''2024-03-01'',
            ''cost'' \<mapsto> JBool True, ''deleted'' \<mapsto> JBool False]"

definition undated :: document where
  "undated = [''description'' \<mapsto> JStr ''Undated'', ''cost'' \<mapsto> JNum (Finite 2),
              ''deleted'' \<mapsto> JBool False]"

definition odd_store :: state where
  "odd_store = signed_in\<lparr>db := (\<lambda>u. if u = ''alice'' then [(''m1'', lunch), (''m2'', undated)] else [])\<rparr>"

definition empty_store :: state where
  "empty_store = signed_in\<lparr>db := (\<lambda>u. [])\<rparr>"

definition bad_update :: document where
  "bad_update = [''description'' \<mapsto> JStr [], ''cost'' \<mapsto> JNum (Finite (-5))]"

definition plain_init :: request_init where
  "plain_init = \<lparr>headers = None\<rparr>"

definition server_401 :: "string \<Rightarrow> request_init \<Rightarrow> js_error + response" where
  "server_401 input init = Inr \<lparr>status = 401\<rparr>"

definition server_200 :: "string \<Rightarrow> request_init \<Rightarrow> js_error + response" where
  "server_200 input init = Inr \<lparr>status = 200\<rparr>"

definition EmailInUse :: js_error where
  "EmailInUse = Error ''Firebase: Error (auth/email-already-in-use).'' (Some ''auth/email-already-in-use'')"

definition bob :: User where
  "bob = \<lparr>uid = ''bob'', idToken = (\<lambda>forceRefresh. Inr ''tok2'')\<rparr>"

definition create_sample :: "string \<Rightarrow> string \<Rightarrow> state \<Rightarrow> (js_error + UserCredential option) \<times> state" where
  "create_sample email password st =
     (if email = ''alice@example.org'' then (Inl EmailInUse, st)
      else (Inr (Some \<lparr>user = bob\<rparr>), st\<lparr>currentUser := Some bob\<rparr>))"

definition on_localhost :: state where
  "on_localhost = signed_out\<lparr>window := Some \<lparr>hostname = ''localhost'', assigned = []\<rparr>\<rparr>"

definition seed_sample :: "string \<Rightarrow> nat \<Rightarrow> state \<Rightarrow> (js_error + unit) \<times> state" where
  "seed_sample u n st = (Inr (), st)"

section \<open>Identity is required before any network call\<close>

lemma requireUid_signed_out: "currentUser st = None \<Longrightarrow> requireUid st = Inl NotSignedIn"
  by (simp add: requireUid_def)

text \<open>
  C1. With no user signed in, each of \<open>fetchExpenses\<close>, \<open>addExpense\<close>, \<open>updateExpense\<close>
  and \<open>deleteExpense\<close> fails with \<open>NotSignedIn\<close> and returns the state as it was: no
  query and no write has been issued, and the database is unchanged.
\<close>

theorem crud_requires_identity:
  assumes "currentUser st = None"
  shows "fetchExpenses cv st = (Inl NotSignedIn, st)
       \<and> addExpense expense st = (Inl NotSignedIn, st)
       \<and> updateExpense cv i nxt st = (Inl NotSignedIn, st)
       \<and> deleteExpense cv i st = (Inl NotSignedIn, st)"
  using requireUid_signed_out [OF assms]
  by (simp add: fetchExpenses_def addExpense_def updateExpense_def deleteExpense_def)

theorem crud_requires_identity_witness:
  "currentUser signed_out = None
   \<and> fetchExpenses cv0 signed_out = (Inl NotSignedIn, signed_out)
   \<and> addExpense coffee_input signed_out = (Inl NotSignedIn, signed_out)
   \<and> updateExpense cv0 (JStr ''e1'') [''cost'' \<mapsto> JNum (Finite 42)] signed_out
       = (Inl NotSignedIn, signed_out)
   \<and> deleteExpense cv0 (JStr ''e1'') signed_out = (Inl NotSignedIn, signed_out)
   \<and> calls signed_out = []"
proof -
  have h: "currentUser signed_out = None"
    by (simp add: signed_out_def)
  have c: "calls signed_out = []"
    by (simp add: signed_out_def)
  show ?thesis
    using h c crud_requires_identity [OF h, of cv0 coffee_input "JStr ''e1''" "[''cost'' \<mapsto> JNum (Finite 42)]"]
    by simp
qed

section \<open>Adding an expense\<close>

lemma requireUid_signed_in:
  "currentUser st = Some usr \<Longrightarrow> uid usr \<noteq> [] \<Longrightarrow> requireUid st = Inr (uid usr)"
  by (simp add: requireUid_def)

lemma invalid_cost_iff:
  "(isNaN c \<or> js_less c (Finite 0)) = (c = NaN \<or> c = NegInf \<or> (\<exists>r. c = Finite r \<and> r < 0))"
  by (cases c) simp_all

lemma ValidationError_simps:
  "is_ValidationError DescriptionRequired" "is_ValidationError InvalidCost"
  "\<not> is_ValidationError NotSignedIn" "\<not> is_ValidationError NotFound"
  by (simp_all add: is_ValidationError_def DescriptionRequired_def InvalidCost_def
      NotSignedIn_def NotFound_def)

text \<open>
  What \<open>trim\<close> computes: the argument is white space, then the result, then white
  space, and a result that is not empty neither starts nor ends with white space.
\<close>

lemma trim_suffix:
  "dropWhile is_space s = trim s @ rev (takeWhile is_space (rev (dropWhile is_space s)))"
proof -
  let ?t = "dropWhile is_space s"
  have "?t = rev (rev ?t)"
    by simp
  also have "\<dots> = rev (takeWhile is_space (rev ?t) @ dropWhile is_space (rev ?t))"
    by (simp only: takeWhile_dropWhile_id)
  also have "\<dots> = rev (dropWhile is_space (rev ?t)) @ rev (takeWhile is_space (rev ?t))"
    by (rule rev_append)
  finally show ?thesis
    by (simp only: trim_def)
qed

lemma trim_decomposition:
  "\<exists>pre post. s = pre @ trim s @ post \<and> list_all is_space pre \<and> list_all is_space post"
proof -
  let ?t = "dropWhile is_space s"
  have "s = takeWhile is_space s @ ?t"
    by simp
  then have "s = takeWhile is_space s @ trim s @ rev (takeWhile is_space (rev ?t))"
    using trim_suffix [of s] by simp
  moreover have "list_all is_space (takeWhile is_space s)"
    by (simp add: list_all_iff) (metis set_takeWhileD)
  moreover have "list_all is_space (rev (takeWhile is_space (rev ?t)))"
    by (simp add: list_all_iff) (metis set_takeWhileD)
  ultimately show ?thesis by blast
qed

lemma trim_ends:
  assumes "trim s \<noteq> []"
  shows "\<not> is_space (hd (trim s)) \<and> \<not> is_space (last (trim s))"
proof -
  let ?t = "dropWhile is_space s"
  let ?r = "dropWhile is_space (rev ?t)"
  have r: "?r \<noteq> []" using assms by (simp add: trim_def)
  then have "\<not> is_space (hd ?r)" by (rule hd_dropWhile)
  then have l: "\<not> is_space (last (trim s))"
    using r by (simp add: trim_def last_rev)
  have "?t \<noteq> []" using assms trim_suffix [of s] by (metis append_is_Nil_conv)
  then have "\<not> is_space (hd ?t)" by (rule hd_dropWhile)
  moreover have "hd ?t = hd (trim s)"
    using assms trim_suffix [of s] by (metis hd_append2)
  ultimately show ?thesis using l by simp
qed

lemma addExpense_accepted:
  assumes "currentUser st = Some usr" and "uid usr \<noteq> []"
    and "description e \<noteq> []" and "\<not> isNaN (cost e)" and "\<not> js_less (cost e) (Finite 0)"
  shows "addExpense e st =
           (Inr (),
            st\<lparr>db := (db st)(uid usr := db st (uid usr) @ [(autoIds st (issued st), add_payload e st)]),
               issued := Suc (issued st),
               calls := calls st @ [AddDoc (uid usr)]\<rparr>)"
  using assms requireUid_signed_in [OF assms(1,2)]
  by (simp add: addExpense_def addDoc_def)

lemma addExpense_ok_iff:
  assumes "currentUser st = Some usr" and "uid usr \<noteq> []"
  shows "(fst (addExpense e st) = Inr ()) =
         (description e \<noteq> [] \<and> \<not> isNaN (cost e) \<and> \<not> js_less (cost e) (Finite 0))"
  using requireUid_signed_in [OF assms]
  by (simp add: addExpense_def addDoc_def)

text \<open>
  C2, as amended. For a signed-in user and an input whose cost is NaN or less than 0
  (minus infinity included), \<open>addExpense\<close> fails with a validation error (the one for
  the description when that is empty as well, the one for the cost otherwise) and
  returns the state as it was: nothing is written.
\<close>

theorem addExpense_rejects_invalid_cost:
  assumes "currentUser st = Some usr" and "uid usr \<noteq> []"
    and "cost e = NaN \<or> cost e = NegInf \<or> (\<exists>r. cost e = Finite r \<and> r < 0)"
  shows "addExpense e st = (Inl (if description e = [] then DescriptionRequired else InvalidCost), st)
       \<and> is_ValidationError (if description e = [] then DescriptionRequired else InvalidCost)"
proof -
  have "isNaN (cost e) \<or> js_less (cost e) (Finite 0)"
    using assms(3) by (simp add: invalid_cost_iff)
  then show ?thesis
    using requireUid_signed_in [OF assms(1,2)]
    by (simp add: addExpense_def ValidationError_simps)
qed

theorem addExpense_rejects_invalid_cost_witness:
  "currentUser signed_in = Some alice \<and> uid alice \<noteq> []
   \<and> addExpense (coffee_input\<lparr>cost := Finite (-5)\<rparr>) signed_in = (Inl InvalidCost, signed_in)
   \<and> addExpense (coffee_input\<lparr>cost := NaN\<rparr>) signed_in = (Inl InvalidCost, signed_in)
   \<and> addExpense (coffee_input\<lparr>cost := NegInf\<rparr>) signed_in = (Inl InvalidCost, signed_in)
   \<and> addExpense (coffee_input\<lparr>cost := NaN, description := []\<rparr>) signed_in
       = (Inl DescriptionRequired, signed_in)
   \<and> is_ValidationError InvalidCost \<and> is_ValidationError DescriptionRequired"
proof -
  have h1: "currentUser signed_in = Some alice"
    by (simp add: signed_in_def)
  have h2: "uid alice \<noteq> []"
    by (simp add: alice_def)
  show ?thesis
    using h1 h2
      addExpense_rejects_invalid_cost [OF h1 h2, of "coffee_input\<lparr>cost := Finite (-5)\<rparr>"]
      addExpense_rejects_invalid_cost [OF h1 h2, of "coffee_input\<lparr>cost := NaN\<rparr>"]
      addExpense_rejects_invalid_cost [OF h1 h2, of "coffee_input\<lparr>cost := NegInf\<rparr>"]
      addExpense_rejects_invalid_cost [OF h1 h2, of "coffee_input\<lparr>cost := NaN, description := []\<rparr>"]
    by (simp add: coffee_input_def)
qed

text \<open>
  C2, as stated, fails: plus infinity is not a finite number, yet it is neither NaN nor
  less than 0, so the guard lets it through and a document with that cost is written.
\<close>

theorem addExpense_accepts_infinite_cost:
  "fst (addExpense (coffee_input\<lparr>cost := PosInf\<rparr>) signed_in) = Inr ()
   \<and> map fst (db (snd (addExpense (coffee_input\<lparr>cost := PosInf\<rparr>) signed_in)) ''alice'')
       = [''e1'', ''e2'', ''n'']
   \<and> map (\<lambda>e. snd e ''cost'') (db (snd (addExpense (coffee_input\<lparr>cost := PosInf\<rparr>) signed_in)) ''alice'')
       = [Some (JNum (Finite 4.5)), Some (JNum (Finite 3)), Some (JNum PosInf)]
   \<and> calls (snd (addExpense (coffee_input\<lparr>cost := PosInf\<rparr>) signed_in)) = [AddDoc ''alice'']"
  by (simp add: addExpense_def requireUid_def signed_in_def signed_out_def alice_def
      coffee_input_def addDoc_def add_payload_def coffee_def tea_def)

text \<open>
  C3. For a signed-in user, an input with the empty description fails with a validation
  error and the state is returned as it was. An input is accepted exactly when its
  description is not empty and its cost is neither NaN nor negative; the document then
  appended to the user's collection has the trimmed description and \<open>deleted = false\<close>.
\<close>

theorem addExpense_description:
  assumes "currentUser st = Some usr" and "uid usr \<noteq> []"
  shows "(description e = [] \<longrightarrow>
            addExpense e st = (Inl DescriptionRequired, st) \<and> is_ValidationError DescriptionRequired)
       \<and> (fst (addExpense e st) = Inr ()) =
            (description e \<noteq> [] \<and> \<not> isNaN (cost e) \<and> \<not> js_less (cost e) (Finite 0))
       \<and> (fst (addExpense e st) = Inr () \<longrightarrow>
            (\<exists>doc. db (snd (addExpense e st)) (uid usr)
                     = db st (uid usr) @ [(autoIds st (issued st), doc)]
                  \<and> doc ''description'' = Some (JStr (trim (description e)))
                  \<and> doc ''deleted'' = Some (JBool False)))"
proof (intro conjI impI)
  assume "description e = []"
  then show "addExpense e st = (Inl DescriptionRequired, st)"
    using requireUid_signed_in [OF assms] by (simp add: addExpense_def)
next
  show "is_ValidationError DescriptionRequired"
    by (simp add: ValidationError_simps)
next
  show "(fst (addExpense e st) = Inr ()) =
          (description e \<noteq> [] \<and> \<not> isNaN (cost e) \<and> \<not> js_less (cost e) (Finite 0))"
    by (rule addExpense_ok_iff [OF assms])
next
  assume "fst (addExpense e st) = Inr ()"
  then have ok: "description e \<noteq> []" "\<not> isNaN (cost e)" "\<not> js_less (cost e) (Finite 0)"
    by (simp_all add: addExpense_ok_iff [OF assms])
  have "db (snd (addExpense e st)) (uid usr)
          = db st (uid usr) @ [(autoIds st (issued st), add_payload e st)]"
    by (simp add: addExpense_accepted [OF assms ok])
  moreover have "add_payload e st ''description'' = Some (JStr (trim (description e)))"
    by (simp add: add_payload_def)
  moreover have "add_payload e st ''deleted'' = Some (JBool False)"
    by (simp add: add_payload_def)
  ultimately show "\<exists>doc. db (snd (addExpense e st)) (uid usr)
                     = db st (uid usr) @ [(autoIds st (issued st), doc)]
                  \<and> doc ''description'' = Some (JStr (trim (description e)))
                  \<and> doc ''deleted'' = Some (JBool False)"
    by blast
qed

theorem addExpense_description_witness:
  "currentUser signed_in = Some alice \<and> uid alice \<noteq> []
   \<and> addExpense (padded_input\<lparr>description := []\<rparr>) signed_in = (Inl DescriptionRequired, signed_in)
   \<and> fst (addExpense padded_input signed_in) = Inr ()
   \<and> (\<exists>doc. db (snd (addExpense padded_input signed_in)) ''alice''
               = [(''e1'', coffee), (''e2'', tea), (''n'', doc)]
           \<and> doc ''description'' = Some (JStr ''Coffee'')
           \<and> doc ''deleted'' = Some (JBool False))"
proof -
  have h1: "currentUser signed_in = Some alice"
    by (simp add: signed_in_def)
  have h2: "uid alice \<noteq> []"
    by (simp add: alice_def)
  have t: "trim (description padded_input) = ''Coffee''"
    by (simp add: padded_input_def trim_def is_space_def)
  have ok: "fst (addExpense padded_input signed_in) = Inr ()"
    using addExpense_description [OF h1 h2, of padded_input]
    by (simp add: padded_input_def)
  have d: "db signed_in ''alice'' = [(''e1'', coffee), (''e2'', tea)]"
    by (simp add: signed_in_def signed_out_def)
  have i: "autoIds signed_in (issued signed_in) = ''n''"
    by (simp add: signed_in_def signed_out_def)
  have u: "uid alice = ''alice''"
    by (simp add: alice_def)
  show ?thesis
    using h1 h2 ok addExpense_description [OF h1 h2, of padded_input]
      addExpense_description [OF h1 h2, of "padded_input\<lparr>description := []\<rparr>"]
    by (simp add: t d i u)
qed

text \<open>
  C9. The description is checked before it is trimmed: there are a signed-in state and
  an input whose description is not empty but all white space, for which \<open>addExpense\<close>
  succeeds and the document it appends has the empty string as its description.
\<close>

theorem addExpense_blank_description:
  "\<exists>st usr e. currentUser st = Some usr \<and> uid usr \<noteq> []
     \<and> description e \<noteq> [] \<and> list_all is_space (description e)
     \<and> fst (addExpense e st) = Inr ()
     \<and> map (\<lambda>d. snd d ''description'') (db (snd (addExpense e st)) (uid usr))
         = map (\<lambda>d. snd d ''description'') (db st (uid usr)) @ [Some (JStr [])]"
proof -
  let ?e = blank_input
  have "currentUser signed_in = Some alice \<and> uid alice \<noteq> []
     \<and> description ?e \<noteq> [] \<and> list_all is_space (description ?e)
     \<and> fst (addExpense ?e signed_in) = Inr ()
     \<and> map (\<lambda>d. snd d ''description'') (db (snd (addExpense ?e signed_in)) (uid alice))
         = map (\<lambda>d. snd d ''description'') (db signed_in (uid alice)) @ [Some (JStr [])]"
    by (simp add: addExpense_def requireUid_def signed_in_def signed_out_def alice_def
      addDoc_def add_payload_def trim_def is_space_def blank_input_def)
  then show ?thesis by blast
qed

section \<open>The query: which documents, in which order\<close>

lemma num_le_total: "num_le a b \<or> num_le b a"
  by (cases a; cases b) auto

lemma num_le_trans: "num_le a b \<Longrightarrow> num_le b c \<Longrightarrow> num_le a c"
  by (cases a; cases b; cases c) auto

lemma fs_le_total: "fs_le a b \<or> fs_le b a"
  using num_le_total by (cases a; cases b) auto

lemma fs_le_trans: "fs_le a b \<Longrightarrow> fs_le b c \<Longrightarrow> fs_le a c"
  by (cases a; cases b; cases c) (auto intro: num_le_trans)

lemma date_le_total: "date_le x y \<or> date_le y x"
  using fs_le_total by (cases x; cases y) auto

lemma date_le_trans: "date_le x y \<Longrightarrow> date_le y z \<Longrightarrow> date_le x z"
  by (cases x; cases y; cases z) (auto intro: fs_le_trans)

lemma mset_insert_desc: "mset (insert_desc a bs) = add_mset a (mset bs)"
  by (induction bs) auto

lemma mset_order_desc: "mset (order_desc c) = mset c"
  by (induction c) (auto simp: mset_insert_desc)

lemma set_insert_desc: "set (insert_desc a bs) = insert a (set bs)"
  by (induction bs) auto

lemma comes_first_desc: "comes_first a b \<Longrightarrow> date_desc a b"
  using date_le_total [of "snd a ''date''" "snd b ''date''"]
  by (auto simp: comes_first_def date_desc_def split: if_splits)

lemma not_comes_first_desc: "\<not> comes_first a b \<Longrightarrow> date_desc b a"
  by (auto simp: comes_first_def date_desc_def split: if_splits)

lemma date_desc_trans: "date_desc a b \<Longrightarrow> date_desc b c \<Longrightarrow> date_desc a c"
  unfolding date_desc_def by (blast intro: date_le_trans)

lemma sorted_insert_desc:
  "sorted_wrt date_desc bs \<Longrightarrow> sorted_wrt date_desc (insert_desc a bs)"
proof (induction bs)
  case Nil
  then show ?case by simp
next
  case (Cons b bs)
  show ?case
  proof (cases "comes_first a b")
    case True
    then have "date_desc a b" by (rule comes_first_desc)
    moreover have "\<forall>x\<in>set bs. date_desc a x"
      using Cons.prems \<open>date_desc a b\<close> by (auto intro: date_desc_trans)
    ultimately show ?thesis using True Cons.prems by simp
  next
    case False
    then have "date_desc b a" by (rule not_comes_first_desc)
    then show ?thesis using False Cons by (auto simp: set_insert_desc)
  qed
qed

lemma sorted_order_desc: "sorted_wrt date_desc (order_desc c)"
  by (induction c) (auto intro: sorted_insert_desc)

lemma mset_run_query: "mset (run_query c) = filter_mset (\<lambda>e. query_matches (snd e)) (mset c)"
  by (simp add: run_query_def mset_order_desc)

lemma set_run_query: "set (run_query c) = {e \<in> set c. query_matches (snd e)}"
  using mset_run_query [of c, THEN arg_cong, of set_mset] by auto

lemma sorted_run_query: "sorted_wrt date_desc (run_query c)"
  by (simp add: run_query_def sorted_order_desc)

lemma to_expense_fields:
  "description (to_expense cv e) =
     (case snd e ''description'' of None \<Rightarrow> [] | Some JNull \<Rightarrow> [] | Some v \<Rightarrow> String_js cv v)"
  "date (to_expense cv e) =
     (case snd e ''date'' of None \<Rightarrow> [] | Some JNull \<Rightarrow> [] | Some v \<Rightarrow> String_js cv v)"
  "cost (to_expense cv e) =
     (case snd e ''cost'' of None \<Rightarrow> Finite 0 | Some JNull \<Rightarrow> Finite 0 | Some v \<Rightarrow> Number_js cv v)"
  "deleted (to_expense cv e) =
     (case snd e ''deleted'' of None \<Rightarrow> False | Some JNull \<Rightarrow> False | Some v \<Rightarrow> Boolean_js v)"
  "expense_id (to_expense cv e) = fst e"
  by (auto simp: to_expense_def split: option.splits jsval.splits)

section \<open>Fetching expenses\<close>

lemma fetchExpenses_signed_in:
  assumes "currentUser st = Some usr" and "uid usr \<noteq> []"
  shows "fetchExpenses cv st =
           (Inr (map (to_expense cv) (run_query (db st (uid usr)))),
            st\<lparr>calls := calls st @ [GetDocs (uid usr)]\<rparr>)"
  using requireUid_signed_in [OF assms]
  by (simp add: fetchExpenses_def getDocs_def)

lemma text_date_desc:
  assumes "text_date a" and "text_date b" and "date_desc a b"
  shows "date (to_expense cv b) \<le> date (to_expense cv a)"
  using assms
  by (auto simp: text_date_def date_desc_def to_expense_fields
      split: option.splits jsval.splits)

lemma sorted_text_dates:
  assumes "\<forall>e\<in>set snap. text_date e" and "sorted_wrt date_desc snap"
  shows "sorted_wrt (\<lambda>a b. date b \<le> date a) (map (to_expense cv) snap)"
proof -
  have "sorted_wrt (\<lambda>a b. date (to_expense cv b) \<le> date (to_expense cv a)) snap"
    using assms(2)
    by (rule sorted_wrt_mono_rel [rotated]) (use assms(1) in \<open>auto intro: text_date_desc\<close>)
  then show ?thesis
    by (simp add: sorted_wrt_map)
qed

lemma matched_not_deleted:
  "query_matches (snd e) \<Longrightarrow> deleted (to_expense cv e) = False"
  by (simp add: query_matches_def to_expense_fields(4))

text \<open>
  C4, as amended. For a signed-in user \<open>fetchExpenses\<close> issues one query and succeeds. The
  documents behind its result are exactly those of the user's collection whose stored
  \<open>deleted\<close> field is the boolean \<^verbatim>\<open>false\<close> and that have a \<open>date\<close> field, each as often as
  it is stored, in descending order of the stored date (so in descending order of the
  returned dates when the stored dates are strings or \<^verbatim>\<open>null\<close>). Each returned record
  carries the document's id; its description, date and cost are \<^verbatim>\<open>String\<close>,
  \<^verbatim>\<open>String\<close> and \<^verbatim>\<open>Number\<close> of the stored value, or the defaults \<^verbatim>\<open>""\<close>, \<^verbatim>\<open>""\<close>
  and \<^verbatim>\<open>0\<close> when the field is absent or \<^verbatim>\<open>null\<close>; its \<open>deleted\<close> is
  \<^verbatim>\<open>false\<close>. When no document of the collection has \<open>deleted = false\<close> the result is
  the empty list, not an error.
\<close>

theorem fetchExpenses_result:
  assumes "currentUser st = Some usr" and "uid usr \<noteq> []"
  shows "\<exists>snap.
           fetchExpenses cv st =
             (Inr (map (to_expense cv) snap), st\<lparr>calls := calls st @ [GetDocs (uid usr)]\<rparr>)
         \<and> mset snap =
             filter_mset (\<lambda>e. snd e ''deleted'' = Some (JBool False) \<and> snd e ''date'' \<noteq> None)
               (mset (db st (uid usr)))
         \<and> sorted_wrt date_desc snap
         \<and> ((\<forall>e\<in>set snap. text_date e) \<longrightarrow>
              sorted_wrt (\<lambda>a b. date b \<le> date a) (map (to_expense cv) snap))
         \<and> (\<forall>e\<in>set snap.
              expense_id (to_expense cv e) = fst e
            \<and> description (to_expense cv e) =
                (case snd e ''description'' of
                   None \<Rightarrow> [] | Some JNull \<Rightarrow> [] | Some v \<Rightarrow> String_js cv v)
            \<and> date (to_expense cv e) =
                (case snd e ''date'' of
                   None \<Rightarrow> [] | Some JNull \<Rightarrow> [] | Some v \<Rightarrow> String_js cv v)
            \<and> cost (to_expense cv e) =
                (case snd e ''cost'' of
                   None \<Rightarrow> Finite 0 | Some JNull \<Rightarrow> Finite 0 | Some v \<Rightarrow> Number_js cv v)
            \<and> deleted (to_expense cv e) = False)
         \<and> ((\<forall>e\<in>set (db st (uid usr)). snd e ''deleted'' \<noteq> Some (JBool False)) \<longrightarrow> snap = [])"
proof -
  let ?snap = "run_query (db st (uid usr))"
  have 1: "fetchExpenses cv st =
             (Inr (map (to_expense cv) ?snap), st\<lparr>calls := calls st @ [GetDocs (uid usr)]\<rparr>)"
    by (rule fetchExpenses_signed_in [OF assms])
  have 2: "mset ?snap =
             filter_mset (\<lambda>e. snd e ''deleted'' = Some (JBool False) \<and> snd e ''date'' \<noteq> None)
               (mset (db st (uid usr)))"
    by (simp add: mset_run_query query_matches_def)
  have 3: "sorted_wrt date_desc ?snap"
    by (rule sorted_run_query)
  have 4: "(\<forall>e\<in>set ?snap. text_date e) \<longrightarrow>
              sorted_wrt (\<lambda>a b. date b \<le> date a) (map (to_expense cv) ?snap)"
    using 3 by (blast intro: sorted_text_dates)
  have 5: "\<forall>e\<in>set ?snap.
              expense_id (to_expense cv e) = fst e
            \<and> description (to_expense cv e) =
                (case snd e ''description'' of
                   None \<Rightarrow> [] | Some JNull \<Rightarrow> [] | Some v \<Rightarrow> String_js cv v)
            \<and> date (to_expense cv e) =
                (case snd e ''date'' of
                   None \<Rightarrow> [] | Some JNull \<Rightarrow> [] | Some v \<Rightarrow> String_js cv v)
            \<and> cost (to_expense cv e) =
                (case snd e ''cost'' of
                   None \<Rightarrow> Finite 0 | Some JNull \<Rightarrow> Finite 0 | Some v \<Rightarrow> Number_js cv v)
            \<and> deleted (to_expense cv e) = False"
    by (simp add: set_run_query matched_not_deleted to_expense_fields(1-3,5))
  have 6: "(\<forall>e\<in>set (db st (uid usr)). snd e ''deleted'' \<noteq> Some (JBool False)) \<longrightarrow> ?snap = []"
  proof
    assume "\<forall>e\<in>set (db st (uid usr)). snd e ''deleted'' \<noteq> Some (JBool False)"
    then have "set ?snap = {}"
      by (auto simp: set_run_query query_matches_def)
    then show "?snap = []" by simp
  qed
  from 1 2 3 4 5 6 show ?thesis by blast
qed

lemma signed_in_facts:
  "currentUser signed_in = Some alice" "uid alice \<noteq> []" "uid alice = ''alice''"
  "db signed_in ''alice'' = [(''e1'', coffee), (''e2'', tea)]"
  "calls signed_in = []"
  by (simp_all add: signed_in_def signed_out_def alice_def)

lemma sample_docs:
  "coffee ''deleted'' = Some (JBool False)" "coffee ''date'' = Some (JStr ''2024-01-01'')"
  "coffee ''description'' = Some (JStr ''Coffee'')" "coffee ''cost'' = Some (JNum (Finite 4.5))"
  "tea ''deleted'' = Some (JBool False)" "tea ''date'' = Some (JStr ''2024-02-01'')"
  "tea ''description'' = Some (JStr ''Tea'')" "tea ''cost'' = Some (JNum (Finite 3))"
  by (simp_all add: coffee_def tea_def)

theorem fetchExpenses_result_witness:
  "currentUser signed_in = Some alice \<and> uid alice \<noteq> []
   \<and> (\<exists>snap. fetchExpenses cv0 signed_in =
                (Inr (map (to_expense cv0) snap), signed_in\<lparr>calls := [GetDocs ''alice'']\<rparr>)
            \<and> mset snap = {#(''e1'', coffee), (''e2'', tea)#}
            \<and> sorted_wrt date_desc snap
            \<and> sorted_wrt (\<lambda>a b. date b \<le> date a) (map (to_expense cv0) snap))
   \<and> fst (fetchExpenses cv0 signed_in) =
       Inr [\<lparr>description = ''Tea'', date = ''2024-02-01'', cost = Finite 3, deleted = False,
              expense_id = ''e2''\<rparr>,
            \<lparr>description = ''Coffee'', date = ''2024-01-01'', cost = Finite 4.5, deleted = False,
              expense_id = ''e1''\<rparr>]
   \<and> currentUser empty_store = Some alice \<and> db empty_store ''alice'' = []
   \<and> fst (fetchExpenses cv0 empty_store) = Inr []"
proof -
  from fetchExpenses_result [OF signed_in_facts(1,2), of cv0]
  obtain snap where s:
    "fetchExpenses cv0 signed_in =
       (Inr (map (to_expense cv0) snap), signed_in\<lparr>calls := calls signed_in @ [GetDocs (uid alice)]\<rparr>)"
    "mset snap =
       filter_mset (\<lambda>e. snd e ''deleted'' = Some (JBool False) \<and> snd e ''date'' \<noteq> None)
         (mset (db signed_in (uid alice)))"
    "sorted_wrt date_desc snap"
    "(\<forall>e\<in>set snap. text_date e) \<longrightarrow>
       sorted_wrt (\<lambda>a b. date b \<le> date a) (map (to_expense cv0) snap)"
    by blast
  have a: "fetchExpenses cv0 signed_in =
       (Inr (map (to_expense cv0) snap), signed_in\<lparr>calls := [GetDocs ''alice'']\<rparr>)"
    using s(1) by (simp add: signed_in_facts)
  have b: "mset snap = {#(''e1'', coffee), (''e2'', tea)#}"
    using s(2) by (simp add: signed_in_facts sample_docs)
  have "set snap = {(''e1'', coffee), (''e2'', tea)}"
    using b [THEN arg_cong, of set_mset] by auto
  then have "\<forall>e\<in>set snap. text_date e"
    by (simp add: text_date_def sample_docs)
  with s(4) have c: "sorted_wrt (\<lambda>a b. date b \<le> date a) (map (to_expense cv0) snap)"
    by blast
  have d: "fst (fetchExpenses cv0 signed_in) =
       Inr [\<lparr>description = ''Tea'', date = ''2024-02-01'', cost = Finite 3, deleted = False,
              expense_id = ''e2''\<rparr>,
            \<lparr>description = ''Coffee'', date = ''2024-01-01'', cost = Finite 4.5, deleted = False,
              expense_id = ''e1''\<rparr>]"
    by (simp add: fetchExpenses_def requireUid_def getDocs_def run_query_def query_matches_def
        comes_first_def to_expense_def signed_in_facts sample_docs)
  have e: "currentUser empty_store = Some alice" "db empty_store ''alice'' = []"
    by (simp_all add: empty_store_def signed_in_facts)
  from fetchExpenses_result [OF e(1) signed_in_facts(2), of cv0]
  obtain none where n:
    "fetchExpenses cv0 empty_store =
       (Inr (map (to_expense cv0) none), empty_store\<lparr>calls := calls empty_store @ [GetDocs (uid alice)]\<rparr>)"
    "(\<forall>e\<in>set (db empty_store (uid alice)). snd e ''deleted'' \<noteq> Some (JBool False)) \<longrightarrow> none = []"
    by blast
  have f: "fst (fetchExpenses cv0 empty_store) = Inr []"
    using n by (simp add: signed_in_facts e)
  from a b c d e f s(3) signed_in_facts(1,2) show ?thesis by blast
qed

text \<open>
  C4, as stated, fails. In \<open>odd_store\<close> the document \<open>m1\<close> has the boolean \<^verbatim>\<open>true\<close> as its
  cost: the returned cost is \<^verbatim>\<open>Number(true) = 1\<close>, not the default \<^verbatim>\<open>0\<close>. The document
  \<open>m2\<close> has \<open>deleted = false\<close> and no date: the query ordered by date leaves it out.
\<close>

theorem fetchExpenses_malformed_not_defaulted:
  "fst (fetchExpenses cv0 odd_store) =
     Inr [\<lparr>description = ''Lunch'', date = ''2024-03-01'', cost = Finite 1, deleted = False,
            expense_id = ''m1''\<rparr>]
   \<and> map fst (db odd_store ''alice'') = [''m1'', ''m2'']
   \<and> lunch ''cost'' = Some (JBool True)
   \<and> undated ''deleted'' = Some (JBool False) \<and> undated ''date'' = None"
  by (simp add: fetchExpenses_def requireUid_def getDocs_def run_query_def query_matches_def
      comes_first_def to_expense_def odd_store_def signed_in_def signed_out_def alice_def
      lunch_def undated_def)

section \<open>Updating and deleting\<close>

lemma keys_merge_into: "map fst (merge_into k body c) = map fst c"
  by (induction c) (auto simp: merge_into_def)

lemma map_of_merge_into:
  "map_of (merge_into k body c) k' =
     (if k' = k then map_option (\<lambda>d. d ++ body) (map_of c k) else map_of c k')"
  by (induction c) (auto simp: merge_into_def)

lemma merged_entries:
  "(k, d') \<in> set (merge_into k body c) \<Longrightarrow> \<exists>d. d' = d ++ body"
  by (auto simp: merge_into_def split: if_splits)

lemma updateDoc_keys: "map fst (db (snd (updateDoc u k body st)) u') = map fst (db st u')"
  by (simp add: updateDoc_def keys_merge_into)

lemma updateDoc_found:
  assumes "map_of (db st u) k = Some d"
  shows "updateDoc u k body st =
           (Inr (), st\<lparr>db := (db st)(u := merge_into k body (db st u)),
                       calls := calls st @ [UpdateDoc u k]\<rparr>)"
proof -
  have "k \<in> set (map fst (db st u))"
    using assms by (metis map_of_eq_None_iff option.distinct(1) set_map)
  then show ?thesis by (simp add: updateDoc_def)
qed

lemma updateDoc_error: "fst (updateDoc u k body st) = Inl err \<Longrightarrow> err = NotFound"
  by (simp add: updateDoc_def split: if_splits)

lemma updateExpense_signed_in:
  assumes "currentUser st = Some usr" and "uid usr \<noteq> []"
  shows "updateExpense cv i nxt st = updateDoc (uid usr) (String_js cv i) (update_body cv nxt) st"
  using requireUid_signed_in [OF assms] by (simp add: updateExpense_def)

lemma deleteExpense_signed_in:
  assumes "currentUser st = Some usr" and "uid usr \<noteq> []"
  shows "deleteExpense cv i st = updateDoc (uid usr) (String_js cv i) [''deleted'' \<mapsto> JBool True] st"
  using requireUid_signed_in [OF assms] by (simp add: deleteExpense_def)

lemma updateDoc_currentUser: "currentUser (snd (updateDoc u k body st)) = currentUser st"
  by (simp add: updateDoc_def)

lemma update_body_fields:
  "(d ++ update_body cv nxt) ''description'' =
     (case nxt ''description'' of None \<Rightarrow> d ''description'' | Some v \<Rightarrow> Some v)"
  "(d ++ update_body cv nxt) ''date'' =
     (case nxt ''date'' of None \<Rightarrow> d ''date'' | Some v \<Rightarrow> Some v)"
  "(d ++ update_body cv nxt) ''cost'' =
     (case nxt ''cost'' of None \<Rightarrow> d ''cost'' | Some v \<Rightarrow> Some (JNum (Number_js cv v)))"
  "(d ++ update_body cv nxt) ''deleted'' =
     (case nxt ''deleted'' of None \<Rightarrow> d ''deleted'' | Some v \<Rightarrow> Some (JBool (Boolean_js v)))"
  by (simp_all add: update_body_def map_add_def split: option.splits)

lemma update_body_frame:
  "f \<notin> {''description'', ''date'', ''cost'', ''deleted''} \<Longrightarrow> (d ++ update_body cv nxt) f = d f"
  by (simp add: update_body_def map_add_def)

lemma update_body_cost_only:
  "d ++ update_body cv [''cost'' \<mapsto> JNum n] = d(''cost'' \<mapsto> JNum n)"
  by (rule ext) (simp add: update_body_def map_add_def)

text \<open>
  C6. For a signed-in user and an id under which the user's collection has a record,
  \<open>updateExpense\<close> succeeds and the record becomes the old one with exactly these
  changes: \<open>description\<close> and \<open>date\<close> are the given values when the partial update has
  them, \<open>cost\<close> is \<^verbatim>\<open>Number\<close> of the given value and \<open>deleted\<close> is \<^verbatim>\<open>Boolean\<close> of the
  given value when it has them. A field the partial update lacks, and every field other
  than these four, is as before; so are the user's other records and the other users'
  collections. With \<^verbatim>\<open>{ cost: 42 }\<close> the new record is the old one with cost 42.
\<close>

theorem updateExpense_partial:
  assumes "currentUser st = Some usr" and "uid usr \<noteq> []"
    and "map_of (db st (uid usr)) (String_js cv i) = Some d"
  shows "\<exists>d'. fst (updateExpense cv i nxt st) = Inr ()
     \<and> map_of (db (snd (updateExpense cv i nxt st)) (uid usr)) (String_js cv i) = Some d'
     \<and> d' ''description'' = (case nxt ''description'' of None \<Rightarrow> d ''description'' | Some v \<Rightarrow> Some v)
     \<and> d' ''date'' = (case nxt ''date'' of None \<Rightarrow> d ''date'' | Some v \<Rightarrow> Some v)
     \<and> d' ''cost'' =
         (case nxt ''cost'' of None \<Rightarrow> d ''cost'' | Some v \<Rightarrow> Some (JNum (Number_js cv v)))
     \<and> d' ''deleted'' =
         (case nxt ''deleted'' of None \<Rightarrow> d ''deleted'' | Some v \<Rightarrow> Some (JBool (Boolean_js v)))
     \<and> (\<forall>f. f \<notin> {''description'', ''date'', ''cost'', ''deleted''} \<longrightarrow> d' f = d f)
     \<and> (nxt = [''cost'' \<mapsto> JNum (Finite 42)] \<longrightarrow> d' = d(''cost'' \<mapsto> JNum (Finite 42)))
     \<and> map fst (db (snd (updateExpense cv i nxt st)) (uid usr)) = map fst (db st (uid usr))
     \<and> (\<forall>k. k \<noteq> String_js cv i \<longrightarrow>
           map_of (db (snd (updateExpense cv i nxt st)) (uid usr)) k = map_of (db st (uid usr)) k)
     \<and> (\<forall>u. u \<noteq> uid usr \<longrightarrow> db (snd (updateExpense cv i nxt st)) u = db st u)"
proof -
  let ?d' = "d ++ update_body cv nxt"
  have run: "updateExpense cv i nxt st =
           (Inr (), st\<lparr>db := (db st)(uid usr := merge_into (String_js cv i) (update_body cv nxt) (db st (uid usr))),
                       calls := calls st @ [UpdateDoc (uid usr) (String_js cv i)]\<rparr>)"
    by (simp add: updateExpense_signed_in [OF assms(1,2)] updateDoc_found [OF assms(3)])
  have 1: "fst (updateExpense cv i nxt st) = Inr ()"
    by (simp add: run)
  have 2: "map_of (db (snd (updateExpense cv i nxt st)) (uid usr)) (String_js cv i) = Some ?d'"
    by (simp add: run map_of_merge_into assms(3))
  have 3: "\<forall>f. f \<notin> {''description'', ''date'', ''cost'', ''deleted''} \<longrightarrow> ?d' f = d f"
    using update_body_frame by blast
  have 4: "nxt = [''cost'' \<mapsto> JNum (Finite 42)] \<longrightarrow> ?d' = d(''cost'' \<mapsto> JNum (Finite 42))"
    by (simp add: update_body_cost_only)
  have 5: "map fst (db (snd (updateExpense cv i nxt st)) (uid usr)) = map fst (db st (uid usr))"
    by (simp add: run keys_merge_into)
  have 6: "\<forall>k. k \<noteq> String_js cv i \<longrightarrow>
           map_of (db (snd (updateExpense cv i nxt st)) (uid usr)) k = map_of (db st (uid usr)) k"
    by (simp add: run map_of_merge_into)
  have 7: "\<forall>u. u \<noteq> uid usr \<longrightarrow> db (snd (updateExpense cv i nxt st)) u = db st u"
    by (simp add: run)
  from 1 2 3 4 5 6 7 update_body_fields [of d cv nxt] show ?thesis
    by blast
qed

theorem updateExpense_partial_witness:
  "currentUser signed_in = Some alice \<and> uid alice \<noteq> []
   \<and> map_of (db signed_in (uid alice)) (String_js cv0 (JStr ''e1'')) = Some coffee
   \<and> fst (updateExpense cv0 (JStr ''e1'') [''cost'' \<mapsto> JNum (Finite 42)] signed_in) = Inr ()
   \<and> map_of (db (snd (updateExpense cv0 (JStr ''e1'') [''cost'' \<mapsto> JNum (Finite 42)] signed_in)) ''alice'') ''e1''
       = Some (coffee(''cost'' \<mapsto> JNum (Finite 42)))
   \<and> map_of (db (snd (updateExpense cv0 (JStr ''e1'') [''cost'' \<mapsto> JNum (Finite 42)] signed_in)) ''alice'') ''e2''
       = Some tea"
proof -
  have h1: "currentUser signed_in = Some alice"
    by (simp add: signed_in_def)
  have h2: "uid alice \<noteq> []"
    by (simp add: alice_def)
  have h3: "map_of (db signed_in (uid alice)) (String_js cv0 (JStr ''e1'')) = Some coffee"
    by (simp add: signed_in_def signed_out_def alice_def)
  have e2: "map_of (db signed_in (uid alice)) ''e2'' = Some tea"
    by (simp add: signed_in_def signed_out_def alice_def)
  have u: "uid alice = ''alice''"
    by (simp add: alice_def)
  from updateExpense_partial [OF h1 h2 h3, of "[''cost'' \<mapsto> JNum (Finite 42)]"]
  show ?thesis
    using h1 h2 h3 e2 by (auto simp: u)
qed

lemma deleted_entries_unmatched:
  assumes "e \<in> set (db (snd (updateDoc u k [''deleted'' \<mapsto> JBool True] st)) u)" and "fst e = k"
  shows "\<not> query_matches (snd e)"
proof (cases "k \<in> set (map fst (db st u))")
  case True
  then have "e \<in> set (merge_into k [''deleted'' \<mapsto> JBool True] (db st u))"
    using assms(1) by (simp add: updateDoc_def)
  then have "(k, snd e) \<in> set (merge_into k [''deleted'' \<mapsto> JBool True] (db st u))"
    using assms(2) by (metis prod.collapse)
  then obtain d where "snd e = d ++ [''deleted'' \<mapsto> JBool True]"
    using merged_entries by blast
  then show ?thesis by (simp add: query_matches_def)
next
  case False
  then have "db (snd (updateDoc u k [''deleted'' \<mapsto> JBool True] st)) u = db st u"
    by (simp add: updateDoc_def)
  then show ?thesis using assms False by force
qed

text \<open>
  C5. For a signed-in user, \<open>deleteExpense\<close> leaves the ids of every collection as they
  were: no record is removed. When the user's collection has a record under the id, the
  call succeeds and a read of that id gives the old record with \<open>deleted = true\<close>. In
  the state after the call, \<open>fetchExpenses\<close> succeeds and no record of its result has
  that id.
\<close>

theorem deleteExpense_soft:
  assumes "currentUser st = Some usr" and "uid usr \<noteq> []"
  shows "(\<forall>u. map fst (db (snd (deleteExpense cv i st)) u) = map fst (db st u))
       \<and> (\<forall>d. map_of (db st (uid usr)) (String_js cv i) = Some d \<longrightarrow>
              fst (deleteExpense cv i st) = Inr ()
            \<and> map_of (db (snd (deleteExpense cv i st)) (uid usr)) (String_js cv i)
                = Some (d(''deleted'' \<mapsto> JBool True)))
       \<and> (\<exists>res. fst (fetchExpenses cv (snd (deleteExpense cv i st))) = Inr res
              \<and> String_js cv i \<notin> set (map expense_id res))"
proof (intro conjI allI impI)
  note del = deleteExpense_signed_in [OF assms]
  show "map fst (db (snd (deleteExpense cv i st)) u) = map fst (db st u)" for u
    by (simp add: del updateDoc_keys)
  show "fst (deleteExpense cv i st) = Inr ()"
    if "map_of (db st (uid usr)) (String_js cv i) = Some d" for d
    by (simp add: del updateDoc_found [OF that])
  show "map_of (db (snd (deleteExpense cv i st)) (uid usr)) (String_js cv i)
          = Some (d(''deleted'' \<mapsto> JBool True))"
    if "map_of (db st (uid usr)) (String_js cv i) = Some d" for d
    by (simp add: del updateDoc_found [OF that] map_of_merge_into that)
  let ?st' = "snd (deleteExpense cv i st)"
  let ?res = "map (to_expense cv) (run_query (db ?st' (uid usr)))"
  have "currentUser ?st' = Some usr"
    by (simp add: del updateDoc_currentUser assms(1))
  then have "fst (fetchExpenses cv ?st') = Inr ?res"
    by (simp add: fetchExpenses_signed_in [OF _ assms(2)])
  moreover have "String_js cv i \<notin> set (map expense_id ?res)"
    using deleted_entries_unmatched [of _ "uid usr" "String_js cv i" st]
    by (auto simp: set_run_query to_expense_fields(5) del)
  ultimately show "\<exists>res. fst (fetchExpenses cv ?st') = Inr res
              \<and> String_js cv i \<notin> set (map expense_id res)"
    by blast
qed

theorem deleteExpense_soft_witness:
  "currentUser signed_in = Some alice \<and> uid alice \<noteq> []
   \<and> map_of (db signed_in ''alice'') ''e1'' = Some coffee
   \<and> fst (deleteExpense cv0 (JStr ''e1'') signed_in) = Inr ()
   \<and> map fst (db (snd (deleteExpense cv0 (JStr ''e1'') signed_in)) ''alice'') = [''e1'', ''e2'']
   \<and> map_of (db (snd (deleteExpense cv0 (JStr ''e1'') signed_in)) ''alice'') ''e1''
       = Some (coffee(''deleted'' \<mapsto> JBool True))
   \<and> (\<exists>res. fst (fetchExpenses cv0 (snd (deleteExpense cv0 (JStr ''e1'') signed_in))) = Inr res
          \<and> ''e1'' \<notin> set (map expense_id res))
   \<and> map expense_id (projr (fst (fetchExpenses cv0 (snd (deleteExpense cv0 (JStr ''e1'') signed_in)))))
       = [''e2'']"
proof -
  have h1: "currentUser signed_in = Some alice"
    by (simp add: signed_in_def)
  have h2: "uid alice \<noteq> []"
    by (simp add: alice_def)
  have u: "uid alice = ''alice''"
    by (simp add: alice_def)
  have d: "db signed_in ''alice'' = [(''e1'', coffee), (''e2'', tea)]"
    by (simp add: signed_in_def signed_out_def)
  have r: "map expense_id (projr (fst (fetchExpenses cv0 (snd (deleteExpense cv0 (JStr ''e1'') signed_in)))))
       = [''e2'']"
    by (simp add: fetchExpenses_def deleteExpense_def updateDoc_def merge_into_def requireUid_def
        getDocs_def run_query_def query_matches_def to_expense_def h1 u d coffee_def tea_def)
  from deleteExpense_soft [OF h1 h2, of cv0 "JStr ''e1''"] show ?thesis
    using h1 h2 r by (simp add: u d)
qed

text \<open>
  C10. \<open>updateExpense\<close> validates nothing. For a signed-in user and a partial update with
  the empty description or a negative cost, the call does not fail with a validation
  error; when the user's collection has a record under the id it succeeds, and the record
  then holds the description and the cost as given (the cost through \<^verbatim>\<open>Number\<close>, the
  deleted flag through \<^verbatim>\<open>Boolean\<close>).
\<close>

theorem updateExpense_no_validation:
  assumes "currentUser st = Some usr" and "uid usr \<noteq> []"
    and "nxt ''description'' = Some (JStr []) \<or> (\<exists>n. nxt ''cost'' = Some (JNum n) \<and> js_less n (Finite 0))"
  shows "(\<forall>err. fst (updateExpense cv i nxt st) = Inl err \<longrightarrow> \<not> is_ValidationError err)
       \<and> (\<forall>d. map_of (db st (uid usr)) (String_js cv i) = Some d \<longrightarrow>
            (\<exists>d'. fst (updateExpense cv i nxt st) = Inr ()
               \<and> map_of (db (snd (updateExpense cv i nxt st)) (uid usr)) (String_js cv i) = Some d'
               \<and> (nxt ''description'' = Some (JStr []) \<longrightarrow> d' ''description'' = Some (JStr []))
               \<and> (\<forall>n. nxt ''cost'' = Some (JNum n) \<longrightarrow> d' ''cost'' = Some (JNum n))
               \<and> (\<forall>v. nxt ''cost'' = Some v \<longrightarrow> d' ''cost'' = Some (JNum (Number_js cv v)))
               \<and> (\<forall>v. nxt ''deleted'' = Some v \<longrightarrow> d' ''deleted'' = Some (JBool (Boolean_js v)))))"
proof (intro conjI allI impI)
  note upd = updateExpense_signed_in [OF assms(1,2)]
  show "\<not> is_ValidationError err" if "fst (updateExpense cv i nxt st) = Inl err" for err
    using that updateDoc_error [of "uid usr" "String_js cv i" "update_body cv nxt" st err]
    by (simp add: upd ValidationError_simps)
  show "\<exists>d'. fst (updateExpense cv i nxt st) = Inr ()
               \<and> map_of (db (snd (updateExpense cv i nxt st)) (uid usr)) (String_js cv i) = Some d'
               \<and> (nxt ''description'' = Some (JStr []) \<longrightarrow> d' ''description'' = Some (JStr []))
               \<and> (\<forall>n. nxt ''cost'' = Some (JNum n) \<longrightarrow> d' ''cost'' = Some (JNum n))
               \<and> (\<forall>v. nxt ''cost'' = Some v \<longrightarrow> d' ''cost'' = Some (JNum (Number_js cv v)))
               \<and> (\<forall>v. nxt ''deleted'' = Some v \<longrightarrow> d' ''deleted'' = Some (JBool (Boolean_js v)))"
    if found: "map_of (db st (uid usr)) (String_js cv i) = Some d" for d
  proof -
    let ?d' = "d ++ update_body cv nxt"
    have 1: "fst (updateExpense cv i nxt st) = Inr ()"
      by (simp add: upd updateDoc_found [OF found])
    have 2: "map_of (db (snd (updateExpense cv i nxt st)) (uid usr)) (String_js cv i) = Some ?d'"
      by (simp add: upd updateDoc_found [OF found] map_of_merge_into found)
    have 3: "nxt ''description'' = Some (JStr []) \<longrightarrow> ?d' ''description'' = Some (JStr [])"
      by (simp add: update_body_fields)
    have 4: "\<forall>v. nxt ''cost'' = Some v \<longrightarrow> ?d' ''cost'' = Some (JNum (Number_js cv v))"
      by (simp add: update_body_fields)
    have 5: "\<forall>n. nxt ''cost'' = Some (JNum n) \<longrightarrow> ?d' ''cost'' = Some (JNum n)"
      by (simp add: update_body_fields)
    have 6: "\<forall>v. nxt ''deleted'' = Some v \<longrightarrow> ?d' ''deleted'' = Some (JBool (Boolean_js v))"
      by (simp add: update_body_fields)
    show ?thesis
      by (rule exI [of _ ?d']) (use 1 2 3 4 5 6 in simp)
  qed
qed

theorem updateExpense_no_validation_witness:
  "currentUser signed_in = Some alice \<and> uid alice \<noteq> []
   \<and> bad_update ''description'' = Some (JStr [])
   \<and> bad_update ''cost'' = Some (JNum (Finite (-5))) \<and> js_less (Finite (-5)) (Finite 0)
   \<and> map_of (db signed_in ''alice'') ''e1'' = Some coffee
   \<and> (\<exists>d'. fst (updateExpense cv0 (JStr ''e1'') bad_update signed_in) = Inr ()
          \<and> map_of (db (snd (updateExpense cv0 (JStr ''e1'') bad_update signed_in)) ''alice'') ''e1'' = Some d'
          \<and> d' ''description'' = Some (JStr [])
          \<and> d' ''cost'' = Some (JNum (Finite (-5))))
   \<and> fst (updateExpense cv0 (JStr ''e9'') bad_update signed_in) = Inl NotFound
   \<and> \<not> is_ValidationError NotFound"
proof -
  have h1: "currentUser signed_in = Some alice"
    by (simp add: signed_in_def)
  have h2: "uid alice \<noteq> []"
    by (simp add: alice_def)
  have b: "bad_update ''description'' = Some (JStr [])" "bad_update ''cost'' = Some (JNum (Finite (-5)))"
    by (simp_all add: bad_update_def)
  have h3: "bad_update ''description'' = Some (JStr [])
            \<or> (\<exists>n. bad_update ''cost'' = Some (JNum n) \<and> js_less n (Finite 0))"
    by (simp add: b)
  have u: "uid alice = ''alice''"
    by (simp add: alice_def)
  have d: "map_of (db signed_in ''alice'') ''e1'' = Some coffee"
    by (simp add: signed_in_def signed_out_def)
  have m: "fst (updateExpense cv0 (JStr ''e9'') bad_update signed_in) = Inl NotFound"
    by (simp add: updateExpense_def requireUid_def updateDoc_def signed_in_def signed_out_def
        alice_def)
  have n: "\<not> is_ValidationError NotFound"
    using updateExpense_no_validation [OF h1 h2 h3, of cv0 "JStr ''e9''"] m by simp
  from updateExpense_no_validation [OF h1 h2 h3, of cv0 "JStr ''e1''"] show ?thesis
    using h1 h2 m n by (auto simp: u d b)
qed

section \<open>Authenticated fetch\<close>

text \<open>
  C7. Let the token be obtained and the request, sent with the token attached, be
  answered. If the answer's status is 401 and there is a browsing context,
  \<open>authedFetch\<close> fails with \<open>Unauthorized\<close> and \<^verbatim>\<open>location.assign\<close> has been called once
  more than before, with \<^verbatim>\<open>/signin\<close>. If the status is not 401, \<open>authedFetch\<close> returns the
  answer and the browsing context is as it was.
\<close>

theorem authedFetch_unauthorized:
  assumes "getIdToken False st = Inr token"
    and "fetch input (with_token token init) = Inr res"
  shows "(status res = 401 \<longrightarrow>
            (\<forall>w. window st = Some w \<longrightarrow>
               authedFetch fetch input init st =
                 (Inl Unauthorized,
                  st\<lparr>calls := calls st @ [HttpFetch input],
                     window := Some (w\<lparr>assigned := assigned w @ [''/signin'']\<rparr>)\<rparr>)))
       \<and> (status res \<noteq> 401 \<longrightarrow>
            authedFetch fetch input init st = (Inr res, st\<lparr>calls := calls st @ [HttpFetch input]\<rparr>)
          \<and> window (snd (authedFetch fetch input init st)) = window st)"
  using assms by (simp add: authedFetch_def)

theorem authedFetch_unauthorized_witness:
  "getIdToken False signed_in = Inr (Some ''tok'')
   \<and> server_401 ''/api'' (with_token (Some ''tok'') plain_init) = Inr \<lparr>status = 401\<rparr>
   \<and> server_200 ''/api'' (with_token (Some ''tok'') plain_init) = Inr \<lparr>status = 200\<rparr>
   \<and> fst (authedFetch server_401 ''/api'' plain_init signed_in) = Inl Unauthorized
   \<and> map_option assigned (window (snd (authedFetch server_401 ''/api'' plain_init signed_in)))
       = Some [''/signin'']
   \<and> fst (authedFetch server_200 ''/api'' plain_init signed_in) = Inr \<lparr>status = 200\<rparr>
   \<and> map_option assigned (window (snd (authedFetch server_200 ''/api'' plain_init signed_in)))
       = Some []"
proof -
  have t: "getIdToken False signed_in = Inr (Some ''tok'')"
    by (simp add: getIdToken_def signed_in_def alice_def)
  have a: "server_401 ''/api'' (with_token (Some ''tok'') plain_init) = Inr \<lparr>status = 401\<rparr>"
    by (simp add: server_401_def)
  have b: "server_200 ''/api'' (with_token (Some ''tok'') plain_init) = Inr \<lparr>status = 200\<rparr>"
    by (simp add: server_200_def)
  have w: "window signed_in = Some \<lparr>hostname = ''example.org'', assigned = []\<rparr>"
    by (simp add: signed_in_def signed_out_def)
  show ?thesis
    using t a b
      authedFetch_unauthorized [of signed_in "Some ''tok''" server_401 "''/api''" plain_init
        "\<lparr>status = 401\<rparr>", OF t a]
      authedFetch_unauthorized [of signed_in "Some ''tok''" server_200 "''/api''" plain_init
        "\<lparr>status = 200\<rparr>", OF t b]
    by (simp add: w)
qed

section \<open>Signing up\<close>

text \<open>
  C8. When account creation is rejected, \<open>signUp\<close> fails with the very error of the
  backend, so with its code and its message. When account creation resolves with a
  credential, \<open>signUp\<close> returns the credential's user, provided the seeding of demo data
  (run only on localhost and when asked for) does not fail.
\<close>

theorem signUp_result:
  "(create email password st = (Inl err, st1) \<longrightarrow>
      signUp create seedExpenses email password seed st = (Inl err, st1)
    \<and> code (projl (fst (signUp create seedExpenses email password seed st))) = code err
    \<and> message (projl (fst (signUp create seedExpenses email password seed st))) = message err)
   \<and> (create email password st = (Inr (Some cred), st1) \<and> \<not> (isLocal st1 \<and> seed) \<longrightarrow>
      signUp create seedExpenses email password seed st = (Inr (user cred), st1))
   \<and> (create email password st = (Inr (Some cred), st1) \<and> isLocal st1 \<and> seed
      \<and> seedExpenses (uid (user cred)) 100 st1 = (Inr (), st2) \<longrightarrow>
      signUp create seedExpenses email password seed st = (Inr (user cred), st2))"
  by (auto simp: signUp_def return_user_def)

theorem signUp_result_witness:
  "create_sample ''alice@example.org'' ''secret'' signed_out = (Inl EmailInUse, signed_out)
   \<and> signUp create_sample seed_sample ''alice@example.org'' ''secret'' True signed_out
       = (Inl EmailInUse, signed_out)
   \<and> code EmailInUse = Some ''auth/email-already-in-use''
   \<and> create_sample ''bob@example.org'' ''secret'' signed_out
       = (Inr (Some \<lparr>user = bob\<rparr>), signed_out\<lparr>currentUser := Some bob\<rparr>)
   \<and> \<not> isLocal (signed_out\<lparr>currentUser := Some bob\<rparr>)
   \<and> signUp create_sample seed_sample ''bob@example.org'' ''secret'' True signed_out
       = (Inr bob, signed_out\<lparr>currentUser := Some bob\<rparr>)
   \<and> isLocal (on_localhost\<lparr>currentUser := Some bob\<rparr>)
   \<and> seed_sample ''bob'' 100 (on_localhost\<lparr>currentUser := Some bob\<rparr>)
       = (Inr (), on_localhost\<lparr>currentUser := Some bob\<rparr>)
   \<and> signUp create_sample seed_sample ''bob@example.org'' ''secret'' True on_localhost
       = (Inr bob, on_localhost\<lparr>currentUser := Some bob\<rparr>)"
proof -
  have a: "create_sample ''alice@example.org'' ''secret'' signed_out = (Inl EmailInUse, signed_out)"
    by (simp add: create_sample_def)
  have b: "create_sample ''bob@example.org'' ''secret'' signed_out
             = (Inr (Some \<lparr>user = bob\<rparr>), signed_out\<lparr>currentUser := Some bob\<rparr>)"
    by (simp add: create_sample_def)
  have l: "\<not> isLocal (signed_out\<lparr>currentUser := Some bob\<rparr>)"
    by (simp add: isLocal_def signed_out_def)
  have c: "code EmailInUse = Some ''auth/email-already-in-use''"
    by (simp add: EmailInUse_def)
  have b': "create_sample ''bob@example.org'' ''secret'' on_localhost
             = (Inr (Some \<lparr>user = bob\<rparr>), on_localhost\<lparr>currentUser := Some bob\<rparr>)"
    by (simp add: create_sample_def)
  have l': "isLocal (on_localhost\<lparr>currentUser := Some bob\<rparr>)"
    by (simp add: isLocal_def on_localhost_def)
  have s: "seed_sample (uid (user \<lparr>user = bob\<rparr>)) 100 (on_localhost\<lparr>currentUser := Some bob\<rparr>)
       = (Inr (), on_localhost\<lparr>currentUser := Some bob\<rparr>)"
       "seed_sample ''bob'' 100 (on_localhost\<lparr>currentUser := Some bob\<rparr>)
       = (Inr (), on_localhost\<lparr>currentUser := Some bob\<rparr>)"
    by (simp_all add: seed_sample_def)
  show ?thesis
    using a b c l b' l' s
      signUp_result [of create_sample "''bob@example.org''" "''secret''" on_localhost EmailInUse
        "on_localhost\<lparr>currentUser := Some bob\<rparr>" seed_sample True "\<lparr>user = bob\<rparr>"
        "on_localhost\<lparr>currentUser := Some bob\<rparr>"]
      signUp_result [of create_sample "''alice@example.org''" "''secret''" signed_out EmailInUse
        signed_out seed_sample True "\<lparr>user = bob\<rparr>" signed_out]
      signUp_result [of create_sample "''bob@example.org''" "''secret''" signed_out EmailInUse
        "signed_out\<lparr>currentUser := Some bob\<rparr>" seed_sample True "\<lparr>user = bob\<rparr>"
        "signed_out\<lparr>currentUser := Some bob\<rparr>"]
    by simp
qed

end
